theory Spec2Isabelle
  imports Main "HOL-Library.Sublist"
begin

section \<open>Data model of \<open>src/runtime/body-parser.ts\<close>\<close>

text \<open>
  JavaScript strings are sequences of UTF-16 code units and \<open>s.length\<close> counts them.
  A \<^typ>\<open>string\<close> stands for such a sequence, one \<^typ>\<open>char\<close> per code unit, so
  \<^term>\<open>length\<close> is \<open>.length\<close>. Byte counts and limits are natural numbers.
\<close>

text \<open>The type \<open>File\<close> (lines 18-23): \<open>name\<close>, \<open>size\<close>, \<open>type\<close> and the optional \<open>path\<close>.\<close>

record File =
  name :: string
  size_f :: nat
  type_f :: string
  path :: "string option"

text \<open>An entry of the \<open>errors\<close> array (line 84): \<open>{ name, message }\<close>.\<close>

record violation =
  err_name :: string
  message :: string

text \<open>
  A size limit is \<open>number | string\<close> (lines 36, 41, 46); \<open>undefined\<close> is \<^term>\<open>None\<close>
  in the records below.
\<close>

datatype size_arg = SizeNum nat | SizeStr string

text \<open>\<open>BodyParserOptions.limits\<close> (lines 26-53). An absent \<open>limits\<close> object is the record
  with every field \<^term>\<open>None\<close> (line 83: \<open>options?.limits || {}\<close>).\<close>

record limits =
  fileCount :: "nat option"
  fileSize :: "size_arg option"
  fieldSize :: "size_arg option"
  jsonSize :: "size_arg option"
  mimeType :: "string option"

text \<open>
  \<open>BodyParserOptions\<close> (lines 25-69). The \<open>onFile\<close> handler is code of the caller: the
  options only say whether one was supplied, and each call of it is recorded as an effect.
\<close>

record options =
  limits :: limits
  uploadDir :: "string option"
  onFile :: bool

text \<open>What a field of the form body is assigned: the text of a field, or the \<open>File\<close> of an upload.\<close>

datatype field_value = TextValue string | FileValue File

text \<open>
  The collaborators the module imports and does not define: \<open>bytes.parse\<close> and \<open>bytes(n)\<close>
  (package \<open>bytes\<close>), \<open>accepts\<close> (package \<open>attr-accept\<close>), \<open>setField\<close> (module
  \<open>./set-field\<close>) with the empty object literal \<open>{}\<close> it starts from, \<open>os.tmpdir()\<close>, and
  the destination \<open>path.join(uploadDir, path.basename(field) + '_' + picoid(17))\<close>, whose
  last argument here counts the earlier draws of \<open>picoid\<close>. They are parameters: every
  theorem below holds for all of them.
\<close>

record 'd env =
  bytes_parse :: "size_arg \<Rightarrow> nat option"
  bytes_format :: "nat \<Rightarrow> string"
  accepts :: "File \<Rightarrow> string \<Rightarrow> bool"
  setField :: "'d \<Rightarrow> string \<Rightarrow> field_value \<Rightarrow> 'd"
  empty_object :: 'd
  tmpdir :: string
  upload_path :: "string \<Rightarrow> string \<Rightarrow> nat \<Rightarrow> string"

text \<open>
  What the promise of \<open>bodyparser\<close> settles to: \<open>null\<close> (\<open>Skip\<close>), the body (\<open>Success\<close>)
  or the rejection \<open>{ errors }\<close> (\<open>Failure\<close>).
\<close>

datatype 'b outcome = Skip | Success 'b | Failure "violation list"

subsection \<open>JavaScript truthiness and template strings\<close>

definition truthy_str :: "string option \<Rightarrow> bool" where
  "truthy_str s = (case s of None \<Rightarrow> False | Some v \<Rightarrow> v \<noteq> [])"

definition truthy_nat :: "nat option \<Rightarrow> bool" where
  "truthy_nat n = (case n of None \<Rightarrow> False | Some v \<Rightarrow> v \<noteq> 0)"

text \<open>\<open>x || undefined\<close> on a number.\<close>

definition or_undefined :: "nat option \<Rightarrow> nat option" where
  "or_undefined n = (if truthy_nat n then n else None)"

text \<open>\<open>x || ''\<close> on a size limit: \<open>undefined\<close>, \<open>0\<close> and \<open>''\<close> become \<open>''\<close>.\<close>

definition or_empty :: "size_arg option \<Rightarrow> size_arg" where
  "or_empty a =
     (case a of
        None \<Rightarrow> SizeStr []
      | Some (SizeNum n) \<Rightarrow> (if n = 0 then SizeStr [] else SizeNum n)
      | Some (SizeStr s) \<Rightarrow> SizeStr s)"

text \<open>\<open>x || 0\<close> on a number.\<close>

definition or_zero :: "nat option \<Rightarrow> nat" where
  "or_zero n = (case n of None \<Rightarrow> 0 | Some v \<Rightarrow> v)"

definition digit_char :: "nat \<Rightarrow> char" where
  "digit_char d = ''0123456789'' ! d"

text \<open>The decimal numeral that a template string prints for a natural number.\<close>

fun show_nat :: "nat \<Rightarrow> string" where
  "show_nat n = (if n < 10 then [digit_char n] else show_nat (n div 10) @ [digit_char (n mod 10)])"

declare show_nat.simps [simp del]

text \<open>\<open>${x}\<close> for a number or string that may be \<open>undefined\<close>.\<close>

definition tmpl_nat :: "nat option \<Rightarrow> string" where
  "tmpl_nat n = (case n of None \<Rightarrow> ''undefined'' | Some v \<Rightarrow> show_nat v)"

definition tmpl_str :: "string option \<Rightarrow> string" where
  "tmpl_str s = (case s of None \<Rightarrow> ''undefined'' | Some v \<Rightarrow> v)"

definition quoted :: "string \<Rightarrow> string" where
  "quoted s = CHR 0x22 # s @ [CHR 0x22]"

subsection \<open>The limits as numbers (lines 86-93)\<close>

definition maxFileCount :: "options \<Rightarrow> nat option" where
  "maxFileCount opts = or_undefined (fileCount (limits opts))"

definition maxFileSize :: "'d env \<Rightarrow> options \<Rightarrow> nat option" where
  "maxFileSize env opts = or_undefined (bytes_parse env (or_empty (fileSize (limits opts))))"

definition maxFieldSize :: "'d env \<Rightarrow> options \<Rightarrow> nat option" where
  "maxFieldSize env opts = or_undefined (bytes_parse env (or_empty (fieldSize (limits opts))))"

definition maxJsonSize :: "'d env \<Rightarrow> options \<Rightarrow> nat option" where
  "maxJsonSize env opts = or_undefined (bytes_parse env (or_empty (jsonSize (limits opts))))"

text \<open>Line 82: \<open>options?.uploadDir || os.tmpdir()\<close>.\<close>

definition uploadDir_of :: "'d env \<Rightarrow> options \<Rightarrow> string" where
  "uploadDir_of env opts = (if truthy_str (uploadDir opts) then the (uploadDir opts) else tmpdir env)"

section \<open>Content-type dispatch (lines 71-75, 95-101)\<close>

datatype route = JsonRoute | FormRoute

definition ACCEPT :: "string list" where
  "ACCEPT = [''application/json'', ''application/x-www-form-urlencoded'', ''multipart/form-data'']"

text \<open>\<open>s.startsWith(t)\<close>: the code units of \<open>t\<close> are the first code units of \<open>s\<close>.\<close>

fun startsWith :: "string \<Rightarrow> string \<Rightarrow> bool" where
  "startsWith s [] = True"
| "startsWith [] (c # t) = False"
| "startsWith (d # s) (c # t) = (d = c \<and> startsWith s t)"

text \<open>
  The argument is \<open>req.headers['content-type']\<close>, \<^term>\<open>None\<close> when the header is absent.
  The result \<^term>\<open>None\<close> is the \<open>return null\<close> of lines 95 and 97.
\<close>

definition dispatch :: "string option \<Rightarrow> route option" where
  "dispatch ct =
     (case ct of
        None \<Rightarrow> None
      | Some c \<Rightarrow>
          if c = [] then None
          else if \<not> list_ex (\<lambda>t. startsWith c t) ACCEPT then None
          else if startsWith c ''application/json'' then Some JsonRoute
          else Some FormRoute)"

section \<open>The JSON route (lines 100-138)\<close>

text \<open>
  A parsed JSON value. The members of an object are listed in the order in which
  \<open>JSON.parse\<close> enumerates its keys when it calls the reviver.
\<close>

datatype json =
  JNull
| JBool bool
| JNumber int
| JString string
| JArray "json list"
| JObject "(string \<times> json) list"

text \<open>\<open>/[0-9]+/.test(key)\<close>: the pattern is not anchored, so it holds of every key that
  contains a decimal digit.\<close>

definition is_digit :: "char \<Rightarrow> bool" where
  "is_digit c = (c \<in> set ''0123456789'')"

definition digit_test :: "string \<Rightarrow> bool" where
  "digit_test key = list_ex is_digit key"

text \<open>
  The state the reviver closes over: the \<open>errors\<close> array and the variable \<open>lastKey\<close>
  (line 102), which is \<open>undefined\<close> until the first assignment.
\<close>

type_synonym reviver_state = "violation list \<times> string option"

definition field_size_exceeded :: "'d env \<Rightarrow> string \<Rightarrow> nat \<Rightarrow> violation" where
  "field_size_exceeded env field lim =
     \<lparr>err_name = ''FIELD_SIZE_EXCEEDED'',
      message = ''field '' @ quoted field @ '' exceeds '' @ bytes_format env lim\<rparr>"

text \<open>Line 109: the name under which a too long string is reported.\<close>

definition reviver_field :: "string option \<Rightarrow> string \<Rightarrow> string" where
  "reviver_field lastKey key = (if digit_test key then tmpl_str lastKey @ ''.'' @ key else key)"

text \<open>The reviver of lines 107-118, for the limit \<open>lim\<close>. It returns \<open>value\<close> unchanged, so
  only its effect on the closed-over state is kept.\<close>

definition reviver :: "'d env \<Rightarrow> nat \<Rightarrow> string \<Rightarrow> json \<Rightarrow> reviver_state \<Rightarrow> reviver_state" where
  "reviver env lim key val st =
     (case st of (errs, lastKey) \<Rightarrow>
        let errs' =
              (case val of
                 JString v \<Rightarrow>
                   if length v > lim
                   then errs @ [field_size_exceeded env (reviver_field lastKey key) lim]
                   else errs
               | _ \<Rightarrow> errs);
            lastKey' = (if digit_test key then lastKey else Some key)
        in (errs', lastKey'))"

text \<open>
  How \<open>JSON.parse(text, reviver)\<close> visits the parsed value (ECMAScript
  \<open>InternalizeJSONProperty\<close>): the elements of an array under the keys \<open>"0"\<close>, \<open>"1"\<close>, ...
  and the members of an object under their keys, each before the value that holds them;
  the whole value last, under the key \<open>""\<close>.
\<close>

fun internalize :: "(string \<Rightarrow> json \<Rightarrow> 's \<Rightarrow> 's) \<Rightarrow> string \<Rightarrow> json \<Rightarrow> 's \<Rightarrow> 's"
  and internalize_elems :: "(string \<Rightarrow> json \<Rightarrow> 's \<Rightarrow> 's) \<Rightarrow> nat \<Rightarrow> json list \<Rightarrow> 's \<Rightarrow> 's"
  and internalize_members :: "(string \<Rightarrow> json \<Rightarrow> 's \<Rightarrow> 's) \<Rightarrow> (string \<times> json) list \<Rightarrow> 's \<Rightarrow> 's"
where
  "internalize f key (JArray xs) st = f key (JArray xs) (internalize_elems f 0 xs st)"
| "internalize f key (JObject ms) st = f key (JObject ms) (internalize_members f ms st)"
| "internalize f key JNull st = f key JNull st"
| "internalize f key (JBool b) st = f key (JBool b) st"
| "internalize f key (JNumber n) st = f key (JNumber n) st"
| "internalize f key (JString v) st = f key (JString v) st"
| "internalize_elems f i [] st = st"
| "internalize_elems f i (x # xs) st = internalize_elems f (Suc i) xs (internalize f (show_nat i) x st)"
| "internalize_members f [] st = st"
| "internalize_members f (m # ms) st = internalize_members f ms (internalize f (fst m) (snd m) st)"

text \<open>
  What the external decoder \<open>bodyParser.json\<close> did with the request: the value it parsed
  (when it came to parse one) and the \<open>type\<close> of the error it passes to the callback of
  line 123 (when it passes one).
\<close>

record json_decoded =
  parsed :: "json option"
  error_type :: "string option"

definition json_size_exceeded :: "'d env \<Rightarrow> nat option \<Rightarrow> violation" where
  "json_size_exceeded env lim =
     \<lparr>err_name = ''JSON_SIZE_EXCEEDED'',
      message = ''json object exceeds '' @ bytes_format env (or_zero lim)\<rparr>"

text \<open>The \<open>errors\<close> array after the decoder has run the reviver (installed only when
  \<open>maxFieldSize\<close> is set, line 106).\<close>

definition json_reviver_errors :: "'d env \<Rightarrow> options \<Rightarrow> json_decoded \<Rightarrow> violation list" where
  "json_reviver_errors env opts dec =
     (case (maxFieldSize env opts, parsed dec) of
        (Some lim, Some j) \<Rightarrow> fst (internalize (reviver env lim) [] j ([], None))
      | _ \<Rightarrow> [])"

text \<open>The \<open>errors\<close> array when the callback of lines 123-136 tests its length.\<close>

definition json_errors :: "'d env \<Rightarrow> options \<Rightarrow> json_decoded \<Rightarrow> violation list" where
  "json_errors env opts dec =
     json_reviver_errors env opts dec @
     (if error_type dec = Some ''entity.too.large''
      then [json_size_exceeded env (maxJsonSize env opts)] else [])"

text \<open>\<open>req.body\<close> as the decoder leaves it: the parsed value, or the \<open>{}\<close> it starts from.\<close>

definition json_req_body :: "json_decoded \<Rightarrow> json" where
  "json_req_body dec = (case parsed dec of Some j \<Rightarrow> j | None \<Rightarrow> JObject [])"

definition json_route :: "'d env \<Rightarrow> options \<Rightarrow> json_decoded \<Rightarrow> json outcome" where
  "json_route env opts dec =
     (let errors = json_errors env opts dec
      in if length errors \<noteq> 0 then Failure errors else Success (json_req_body dec))"

section \<open>The form route (lines 140-236)\<close>

subsection \<open>Events and state\<close>

text \<open>A chunk of a file stream is a sequence of bytes; \<open>data.length\<close> is its \<^term>\<open>length\<close>.\<close>

type_synonym chunk = "char list"

text \<open>
  What reaches the callbacks that \<open>bodyparser\<close> registers, in the order in which the
  event loop runs them. A file stream is named by a number, standing for the identity of
  the stream object.

  \<^item> \<open>FileEv i field filename mime\<close>: busboy emits \<open>'file'\<close> with the new stream \<open>i\<close>,
    \<open>info.filename = filename\<close> and \<open>info.mimeType = mime\<close>; an undefined file name is falsy
    as the empty one is, and both are \<^term>\<open>[]\<close>;
  \<^item> \<open>MkdirDone i\<close>: the promise of \<open>fs.promises.mkdir\<close> awaited at line 177 for stream
    \<open>i\<close> is fulfilled and the handler resumes at line 178;
  \<^item> \<open>DataEv i c\<close>: stream \<open>i\<close> emits \<open>'data'\<close> with the chunk \<open>c\<close>;
  \<^item> \<open>EndEv i t\<close>: stream \<open>i\<close> emits \<open>'end'\<close>, its property \<open>truncated\<close> being \<open>t\<close>;
  \<^item> \<open>FieldEv field value nt vt\<close>: busboy emits \<open>'field'\<close> with \<open>info.nameTruncated = nt\<close>
    and \<open>info.valueTruncated = vt\<close>;
  \<^item> \<open>FilesLimitEv\<close> and \<open>FinishEv\<close>: busboy emits \<open>'filesLimit'\<close> and \<open>'finish'\<close>;
  \<^item> \<open>TimeoutEv\<close>: a callback scheduled by the \<open>setTimeout(..., 0)\<close> of line 230 runs.
\<close>

datatype event =
  FileEv nat string string string
| MkdirDone nat
| DataEv nat chunk
| EndEv nat bool
| FieldEv string string bool bool
| FilesLimitEv
| FinishEv
| TimeoutEv

text \<open>
  What the handlers do to the world outside the module: \<open>file.resume()\<close>, the call of
  \<open>options.onFile\<close>, \<open>fs.promises.mkdir(uploadDir, ...)\<close>, and
  \<open>file.pipe(fs.createWriteStream(value.path))\<close>.
\<close>

datatype effect =
  Resume nat
| OnFileCall string File nat
| Mkdir string
| PipeToFile nat string

text \<open>
  The variables one call of \<open>bodyparser\<close> closes over.
  \<^item> \<open>errors\<close> (line 84) and \<open>data\<close> (line 151);
  \<open>req_body_set\<close>: whether line 227 has assigned \<open>req.body\<close>;
  \<^item> \<open>awaiting\<close>: the \<open>'file'\<close> handlers suspended at the \<open>await\<close> of line 177, with their
    \<open>field\<close> and \<open>value\<close>;
  \<^item> \<open>listening\<close>: the streams on which lines 185 and 189 have registered the \<open>'data'\<close> and
    \<open>'end'\<close> listeners, with the \<open>field\<close> and \<open>value\<close> these close over;
  \<^item> \<open>effects\<close>: the outside effects so far; \<open>picoids\<close>: the number of draws of \<open>picoid\<close>;
  \<^item> \<open>timers\<close>: the scheduled callbacks of line 230 that have not run;
  \<^item> \<open>settled\<close>: the state of the promise of line 141, \<^term>\<open>None\<close> while it is pending.
\<close>

record 'd state =
  errors :: "violation list"
  data :: 'd
  req_body_set :: bool
  awaiting :: "nat \<rightharpoonup> string \<times> File"
  listening :: "nat \<rightharpoonup> string \<times> File"
  effects :: "effect list"
  picoids :: nat
  timers :: nat
  settled :: "'d outcome option"

definition init :: "'d env \<Rightarrow> 'd state" where
  "init env =
     \<lparr>errors = [], data = empty_object env, req_body_set = False,
      awaiting = Map.empty, listening = Map.empty, effects = [], picoids = 0,
      timers = 0, settled = None\<rparr>"

text \<open>
  \<open>resolve\<close> and \<open>reject\<close>: a promise settles once, later calls do nothing. The outcome
  holds the result tree or the violations as they are when the promise settles.
\<close>

definition settle :: "'d outcome \<Rightarrow> 'd state \<Rightarrow> 'd state" where
  "settle out s = (if settled s = None then s\<lparr>settled := Some out\<rparr> else s)"

subsection \<open>The violations\<close>

definition file_type_rejected :: "options \<Rightarrow> File \<Rightarrow> violation" where
  "file_type_rejected opts v =
     \<lparr>err_name = ''FILE_TYPE_REJECTED'',
      message = ''file '' @ quoted (name v) @ '' is not of type '' @
                quoted (tmpl_str (mimeType (limits opts)))\<rparr>"

definition file_size_exceeded :: "'d env \<Rightarrow> options \<Rightarrow> File \<Rightarrow> violation" where
  "file_size_exceeded env opts v =
     \<lparr>err_name = ''FILE_SIZE_EXCEEDED'',
      message = ''file '' @ quoted (name v) @ '' exceeds '' @
                bytes_format env (or_zero (maxFileSize env opts))\<rparr>"

definition form_field_size_exceeded :: "'d env \<Rightarrow> options \<Rightarrow> string \<Rightarrow> violation" where
  "form_field_size_exceeded env opts field =
     field_size_exceeded env field (or_zero (maxFieldSize env opts))"

definition file_count_exceeded :: "options \<Rightarrow> violation" where
  "file_count_exceeded opts =
     \<lparr>err_name = ''FILE_COUNT_EXCEEDED'',
      message = ''file count exceeds '' @ tmpl_nat (maxFileCount opts)\<rparr>"

subsection \<open>The handlers\<close>

text \<open>Line 154: whether the \<open>'file'\<close> listener is registered at all.\<close>

definition file_listener :: "options \<Rightarrow> bool" where
  "file_listener opts =
     (truthy_nat (maxFileCount opts) \<or> truthy_str (uploadDir opts) \<or> onFile opts)"

text \<open>The \<open>'file'\<close> listener, lines 155-177 and, with an \<open>onFile\<close> handler, on to line 200.\<close>

definition on_file ::
  "'d env \<Rightarrow> options \<Rightarrow> nat \<Rightarrow> string \<Rightarrow> string \<Rightarrow> string \<Rightarrow> 'd state \<Rightarrow> 'd state" where
  "on_file env opts i field filename mime s =
     (let v = \<lparr>name = filename, size_f = 0, type_f = mime, path = None\<rparr>
      in if filename = [] then s\<lparr>effects := effects s @ [Resume i]\<rparr>
         else if truthy_str (mimeType (limits opts)) \<and>
                 \<not> accepts env v (the (mimeType (limits opts)))
         then s\<lparr>errors := errors s @ [file_type_rejected opts v],
                effects := effects s @ [Resume i]\<rparr>
         else if onFile opts
         then s\<lparr>effects := effects s @ [OnFileCall field v i],
                listening := (listening s)(i \<mapsto> (field, v))\<rparr>
         else s\<lparr>effects := effects s @ [Mkdir (uploadDir_of env opts)],
                awaiting := (awaiting s)(i \<mapsto> (field, v))\<rparr>)"

text \<open>The rest of the \<open>'file'\<close> listener after the \<open>await\<close>, lines 178-200.\<close>

definition after_mkdir :: "'d env \<Rightarrow> options \<Rightarrow> nat \<Rightarrow> 'd state \<Rightarrow> 'd state" where
  "after_mkdir env opts i s =
     (case awaiting s i of
        None \<Rightarrow> s
      | Some (field, v) \<Rightarrow>
          let p = upload_path env (uploadDir_of env opts) field (picoids s)
          in s\<lparr>awaiting := (awaiting s)(i := None),
               picoids := Suc (picoids s),
               effects := effects s @ [PipeToFile i p],
               listening := (listening s)(i \<mapsto> (field, v\<lparr>path := Some p\<rparr>))\<rparr>)"

text \<open>The \<open>'data'\<close> listener of a file stream, lines 185-187.\<close>

definition file_on_data :: "nat \<Rightarrow> chunk \<Rightarrow> 'd state \<Rightarrow> 'd state" where
  "file_on_data i c s =
     (case listening s i of
        None \<Rightarrow> s
      | Some (field, v) \<Rightarrow> s\<lparr>listening := (listening s)(i \<mapsto> (field, v\<lparr>size_f := length c\<rparr>))\<rparr>)"

text \<open>The \<open>'end'\<close> listener of a file stream, lines 189-200.\<close>

definition file_on_end :: "'d env \<Rightarrow> options \<Rightarrow> nat \<Rightarrow> bool \<Rightarrow> 'd state \<Rightarrow> 'd state" where
  "file_on_end env opts i truncated s =
     (case listening s i of
        None \<Rightarrow> s
      | Some (field, v) \<Rightarrow>
          if truncated then s\<lparr>errors := errors s @ [file_size_exceeded env opts v]\<rparr>
          else s\<lparr>data := setField env (data s) field (FileValue v)\<rparr>)"

text \<open>The \<open>'field'\<close> listener, lines 204-213.\<close>

definition on_field ::
  "'d env \<Rightarrow> options \<Rightarrow> string \<Rightarrow> string \<Rightarrow> bool \<Rightarrow> bool \<Rightarrow> 'd state \<Rightarrow> 'd state" where
  "on_field env opts field val nameTruncated valueTruncated s =
     (if nameTruncated \<or> valueTruncated
      then s\<lparr>errors := errors s @ [form_field_size_exceeded env opts field]\<rparr>
      else s\<lparr>data := setField env (data s) field (TextValue val)\<rparr>)"

text \<open>The \<open>'filesLimit'\<close> listener, lines 215-220.\<close>

definition on_filesLimit :: "options \<Rightarrow> 'd state \<Rightarrow> 'd state" where
  "on_filesLimit opts s = s\<lparr>errors := errors s @ [file_count_exceeded opts]\<rparr>"

text \<open>The \<open>'finish'\<close> listener, lines 222-233.\<close>

definition on_finish :: "'d state \<Rightarrow> 'd state" where
  "on_finish s =
     (if length (errors s) > 0 then settle (Failure (errors s)) s
      else s\<lparr>req_body_set := True, timers := Suc (timers s)\<rparr>)"

text \<open>The callback of lines 230-232: \<open>resolve(data)\<close>, with \<open>data\<close> as it is when it runs.\<close>

definition on_timeout :: "'d state \<Rightarrow> 'd state" where
  "on_timeout s =
     (if timers s = 0 then s
      else settle (Success (data s)) (s\<lparr>timers := timers s - 1\<rparr>))"

text \<open>One turn of the event loop. An event for which nothing is registered does nothing.\<close>

fun step :: "'d env \<Rightarrow> options \<Rightarrow> event \<Rightarrow> 'd state \<Rightarrow> 'd state" where
  "step env opts (FileEv i field filename mime) s =
     (if file_listener opts then on_file env opts i field filename mime s else s)"
| "step env opts (MkdirDone i) s = after_mkdir env opts i s"
| "step env opts (DataEv i c) s = file_on_data i c s"
| "step env opts (EndEv i t) s = file_on_end env opts i t s"
| "step env opts (FieldEv field val nt vt) s = on_field env opts field val nt vt s"
| "step env opts FilesLimitEv s = on_filesLimit opts s"
| "step env opts FinishEv s = on_finish s"
| "step env opts TimeoutEv s = on_timeout s"

definition run :: "'d env \<Rightarrow> options \<Rightarrow> event list \<Rightarrow> 'd state \<Rightarrow> 'd state" where
  "run env opts evs s = fold (step env opts) evs s"

text \<open>The promise of line 141 after the events \<open>evs\<close>; \<^term>\<open>None\<close> while it is pending.\<close>

definition form_route :: "'d env \<Rightarrow> options \<Rightarrow> event list \<Rightarrow> 'd outcome option" where
  "form_route env opts evs = settled (run env opts evs (init env))"

section \<open>The entry point (lines 77-237)\<close>

datatype 'd body = JsonBody json | FormBody 'd

text \<open>
  \<open>bodyparser\<close> for a request with the content-type header \<open>ct\<close>, where \<open>dec\<close> is what the
  JSON decoder does with the request and \<open>evs\<close> what the form decoder and the event loop
  deliver. The result is the state of the returned promise.
\<close>

definition bodyparser ::
  "'d env \<Rightarrow> options \<Rightarrow> string option \<Rightarrow> json_decoded \<Rightarrow> event list \<Rightarrow> 'd body outcome option" where
  "bodyparser env opts ct dec evs =
     (case dispatch ct of
        None \<Rightarrow> Some Skip
      | Some JsonRoute \<Rightarrow> Some (map_outcome JsonBody (json_route env opts dec))
      | Some FormRoute \<Rightarrow> map_option (map_outcome FormBody) (form_route env opts evs))"

section \<open>The form decoder's file count\<close>

text \<open>
  The form decoder is the package \<open>busboy\<close>, created at lines 142-149 with
  \<open>limits.files = maxFileCount\<close>; its code is not part of the repository. What the
  module relies on is written here as the source states it: the comment of lines 28-29
  (``empty file fields, still count against the file count limit''), so that every file
  part counts, whatever its file name; the \<open>'filesLimit'\<close> event of line 215, emitted once,
  for a file part that arrives when the count has reached the limit, the part being
  skipped; and the registration of line 154, without which no event of a file part
  reaches the module.

  A part of the body is a text field, with its two truncation flags, or a file with its
  field name, file name, mime type, the chunks its stream delivers and whether the
  stream was truncated.
\<close>

datatype part =
  FieldPart string string bool bool
| FilePart string string string "chunk list" bool

record busboy_state =
  files :: nat
  hitFilesLimit :: bool
  streams :: nat

definition busboy_init :: busboy_state where
  "busboy_init = \<lparr>files = 0, hitFilesLimit = False, streams = 0\<rparr>"

text \<open>
  The events of one part, in one order in which the event loop can deliver them: the
  stream of a file flows only once it is piped or handed over, so its chunks and its end
  follow the \<open>'file'\<close> event and the \<open>mkdir\<close> that the listener awaits.
\<close>

definition busboy_part ::
  "nat option \<Rightarrow> bool \<Rightarrow> part \<Rightarrow> busboy_state \<Rightarrow> event list \<times> busboy_state" where
  "busboy_part filesLimit listener p b =
     (case p of
        FieldPart field val nt vt \<Rightarrow> ([FieldEv field val nt vt], b)
      | FilePart field filename mime cs t \<Rightarrow>
          if filesLimit = Some (files b)
          then ((if hitFilesLimit b then [] else [FilesLimitEv]), b\<lparr>hitFilesLimit := True\<rparr>)
          else if \<not> listener then ([], b\<lparr>files := Suc (files b)\<rparr>)
          else ([FileEv (streams b) field filename mime, MkdirDone (streams b)] @
                map (DataEv (streams b)) cs @ [EndEv (streams b) t],
                b\<lparr>files := Suc (files b), streams := Suc (streams b)\<rparr>))"

fun busboy_parts :: "nat option \<Rightarrow> bool \<Rightarrow> part list \<Rightarrow> busboy_state \<Rightarrow> event list" where
  "busboy_parts filesLimit listener [] b = [FinishEv]"
| "busboy_parts filesLimit listener (p # ps) b =
     (case busboy_part filesLimit listener p b of
        (evs, b') \<Rightarrow> evs @ busboy_parts filesLimit listener ps b')"

text \<open>The form route on a body given by its parts, the timer of line 230 having run.\<close>

definition upload :: "'d env \<Rightarrow> options \<Rightarrow> part list \<Rightarrow> 'd outcome option" where
  "upload env opts ps =
     form_route env opts
       (busboy_parts (maxFileCount opts) (file_listener opts) ps busboy_init @ [TimeoutEv])"

section \<open>Collaborators for evaluation\<close>

text \<open>
  Concrete collaborators, used only to evaluate the model on concrete requests: sizes are
  given as numbers and printed in decimal, a mime pattern accepts exactly the type equal to
  it, the result tree is the list of the assignments made, in order.
\<close>

definition demo_env :: "(string \<times> field_value) list env" where
  "demo_env =
     \<lparr>bytes_parse = (\<lambda>a. case a of SizeNum n \<Rightarrow> Some n | SizeStr _ \<Rightarrow> None),
      bytes_format = show_nat,
      accepts = (\<lambda>f pat. type_f f = pat),
      setField = (\<lambda>d field v. d @ [(field, v)]),
      empty_object = [],
      tmpdir = ''/tmp'',
      upload_path = (\<lambda>dir field n. dir @ ''/'' @ field @ ''_'' @ show_nat n)\<rparr>"

definition no_limits :: limits where
  "no_limits =
     \<lparr>fileCount = None, fileSize = None, fieldSize = None, jsonSize = None, mimeType = None\<rparr>"

definition no_options :: options where
  "no_options = \<lparr>limits = no_limits, uploadDir = None, onFile = False\<rparr>"

definition demo_upload :: options where
  "demo_upload =
     \<lparr>limits = no_limits\<lparr>fileSize := Some (SizeNum 4), mimeType := Some ''text/plain''\<rparr>,
      uploadDir = Some ''/up'', onFile = False\<rparr>"

definition demo_file :: File where
  "demo_file = \<lparr>name = ''a.txt'', size_f = 0, type_f = ''text/plain'', path = Some ''/up/doc_0''\<rparr>"

text \<open>The state in which the upload \<open>a.txt\<close> of the field \<open>doc\<close> is being written to storage.\<close>

definition demo_file_open :: "(string \<times> field_value) list state" where
  "demo_file_open =
     run demo_env demo_upload [FileEv 0 ''doc'' ''a.txt'' ''text/plain'', MkdirDone 0]
       (init demo_env)"

section \<open>Notions used to state the properties\<close>

text \<open>The events of a file part: of its stream and of the handler that awaits \<open>mkdir\<close>.\<close>

fun is_file_event :: "event \<Rightarrow> bool" where
  "is_file_event (FileEv i field filename mime) = True"
| "is_file_event (MkdirDone i) = True"
| "is_file_event (DataEv i c) = True"
| "is_file_event (EndEv i t) = True"
| "is_file_event e = False"

text \<open>A text field that the decoder did not truncate.\<close>

fun is_plain_field :: "event \<Rightarrow> bool" where
  "is_plain_field (FieldEv field val nt vt) = (\<not> nt \<and> \<not> vt)"
| "is_plain_field e = False"

text \<open>The number of string leaves of a JSON value that are longer than \<open>lim\<close>.\<close>

fun long_strings :: "nat \<Rightarrow> json \<Rightarrow> nat"
  and long_strings_list :: "nat \<Rightarrow> json list \<Rightarrow> nat"
  and long_strings_members :: "nat \<Rightarrow> (string \<times> json) list \<Rightarrow> nat"
where
  "long_strings lim (JString v) = (if length v > lim then 1 else 0)"
| "long_strings lim (JArray xs) = long_strings_list lim xs"
| "long_strings lim (JObject ms) = long_strings_members lim ms"
| "long_strings lim JNull = 0"
| "long_strings lim (JBool b) = 0"
| "long_strings lim (JNumber n) = 0"
| "long_strings_list lim [] = 0"
| "long_strings_list lim (x # xs) = long_strings lim x + long_strings_list lim xs"
| "long_strings_members lim [] = 0"
| "long_strings_members lim (m # ms) = long_strings lim (snd m) + long_strings_members lim ms"

section \<open>Basic facts\<close>

lemmas handler_defs =
  on_file_def after_mkdir_def file_on_data_def file_on_end_def on_field_def
  on_filesLimit_def on_finish_def on_timeout_def settle_def

lemmas eval_defs =
  demo_env_def no_options_def no_limits_def init_def form_route_def json_route_def
  json_errors_def json_reviver_errors_def json_req_body_def reviver_def reviver_field_def
  field_size_exceeded_def form_field_size_exceeded_def file_size_exceeded_def
  file_type_rejected_def file_count_exceeded_def json_size_exceeded_def
  maxFieldSize_def maxFileSize_def maxJsonSize_def maxFileCount_def uploadDir_of_def
  or_undefined_def or_empty_def or_zero_def truthy_nat_def truthy_str_def
  tmpl_nat_def tmpl_str_def quoted_def digit_test_def is_digit_def digit_char_def
  file_listener_def dispatch_def ACCEPT_def bodyparser_def handler_defs Let_def

lemma show_nat_digit [simp]: "n < 10 \<Longrightarrow> show_nat n = [digit_char n]"
  by (simp add: show_nat.simps)

lemma startsWith_prefix: "startsWith s t = prefix t s"
  by (induction s t rule: startsWith.induct) auto

lemma run_Nil [simp]: "run env opts [] s = s"
  by (simp add: run_def)

lemma run_Cons [simp]: "run env opts (e # evs) s = run env opts evs (step env opts e s)"
  by (simp add: run_def)

lemma run_append: "run env opts (xs @ ys) s = run env opts ys (run env opts xs s)"
  by (simp add: run_def)

lemma demo_file_open_listening: "listening demo_file_open 0 = Some (''doc'', demo_file)"
  by (simp add: demo_file_open_def demo_upload_def demo_file_def eval_defs)

lemma demo_file_open_fields:
  "errors demo_file_open = []" "data demo_file_open = []" "settled demo_file_open = None"
  "timers demo_file_open = 0" "awaiting demo_file_open 0 = None"
  by (simp_all add: demo_file_open_def demo_upload_def eval_defs)

section \<open>Content-type dispatch\<close>

lemma dispatch_None_iff:
  "dispatch ct = None \<longleftrightarrow> (\<forall>c. ct = Some c \<longrightarrow> (\<forall>t \<in> set ACCEPT. \<not> prefix t c))"
  by (cases ct) (auto simp: dispatch_def list_ex_iff startsWith_prefix ACCEPT_def)

lemma dispatch_routes:
  "dispatch ct = Some JsonRoute \<longleftrightarrow> (\<exists>c. ct = Some c \<and> prefix ''application/json'' c)"
  "dispatch ct = Some FormRoute \<longleftrightarrow>
     (\<exists>c. ct = Some c \<and> \<not> prefix ''application/json'' c \<and>
        (prefix ''application/x-www-form-urlencoded'' c \<or> prefix ''multipart/form-data'' c))"
  by (cases ct; auto simp: dispatch_def startsWith_prefix ACCEPT_def)+

lemma json_route_not_Skip: "json_route env opts dec \<noteq> Skip"
  by (simp add: json_route_def Let_def)

lemma step_not_Skip: "settled s \<noteq> Some Skip \<Longrightarrow> settled (step env opts e s) \<noteq> Some Skip"
  by (cases e) (auto simp: handler_defs Let_def split: option.splits prod.splits if_splits)

lemma run_not_Skip: "settled s \<noteq> Some Skip \<Longrightarrow> settled (run env opts evs s) \<noteq> Some Skip"
  by (induction evs arbitrary: s) (simp_all add: step_not_Skip)

lemma form_route_not_Skip: "form_route env opts evs \<noteq> Some Skip"
  unfolding form_route_def by (rule run_not_Skip) (simp add: init_def)

text \<open>
  Claim C2. The three content types of \<open>ACCEPT\<close> are the only ones recognised, by a
  prefix match on the code units of the declared content type (so the match is case
  sensitive); \<open>bodyparser\<close> returns \<open>null\<close> exactly when the header is absent or none of
  the three is a prefix of it, and in every other case it does not return \<open>null\<close>.
\<close>

theorem dispatch_three_prefix_families:
  "ACCEPT = [''application/json'', ''application/x-www-form-urlencoded'', ''multipart/form-data'']
   \<and> (dispatch ct = None \<longleftrightarrow> (\<forall>c. ct = Some c \<longrightarrow> (\<forall>t \<in> set ACCEPT. \<not> prefix t c)))
   \<and> (dispatch ct = Some JsonRoute \<longleftrightarrow> (\<exists>c. ct = Some c \<and> prefix ''application/json'' c))
   \<and> (dispatch ct = Some FormRoute \<longleftrightarrow>
        (\<exists>c. ct = Some c \<and> \<not> prefix ''application/json'' c \<and>
           (prefix ''application/x-www-form-urlencoded'' c \<or> prefix ''multipart/form-data'' c)))
   \<and> (bodyparser env opts ct dec evs = Some Skip \<longleftrightarrow> dispatch ct = None)"
proof -
  have "bodyparser env opts ct dec evs = Some Skip \<longleftrightarrow> dispatch ct = None"
  proof (cases "dispatch ct")
    case None
    then show ?thesis by (simp add: bodyparser_def)
  next
    case (Some r)
    show ?thesis
    proof (cases r)
      case JsonRoute
      with Some json_route_not_Skip [of env opts dec] show ?thesis
        by (cases "json_route env opts dec") (simp_all add: bodyparser_def)
    next
      case FormRoute
      with Some form_route_not_Skip [of env opts evs] show ?thesis
        by (cases "form_route env opts evs"; cases "the (form_route env opts evs)")
           (auto simp add: bodyparser_def)
    qed
  qed
  then show ?thesis
    using dispatch_None_iff [of ct] dispatch_routes [of ct] by (simp add: ACCEPT_def)
qed

text \<open>
  At \<open>text/plain\<close> and at a content type that differs from \<open>application/json\<close> in case
  only the result is \<open>null\<close>; parameters after a recognised type do not matter.
\<close>

theorem dispatch_three_prefix_families_witness:
  "dispatch (Some ''text/plain'') = None
   \<and> bodyparser demo_env no_options (Some ''text/plain'')
        \<lparr>parsed = None, error_type = None\<rparr> [FinishEv, TimeoutEv] = Some Skip
   \<and> dispatch (Some ''Application/JSON'') = None
   \<and> dispatch (Some ''application/json; charset=utf-8'') = Some JsonRoute
   \<and> dispatch (Some ''multipart/form-data; boundary=x'') = Some FormRoute"
proof -
  have none: "dispatch (Some ''text/plain'') = None"
    by (simp add: dispatch_def ACCEPT_def)
  have "bodyparser demo_env no_options (Some ''text/plain'')
          \<lparr>parsed = None, error_type = None\<rparr> [FinishEv, TimeoutEv] = Some Skip"
    using dispatch_three_prefix_families
            [of "Some ''text/plain''" demo_env no_options
                "\<lparr>parsed = None, error_type = None\<rparr>" "[FinishEv, TimeoutEv]"] none
    by blast
  moreover have "dispatch (Some ''Application/JSON'') = None"
    and "dispatch (Some ''application/json; charset=utf-8'') = Some JsonRoute"
    and "dispatch (Some ''multipart/form-data; boundary=x'') = Some FormRoute"
    by (simp_all add: dispatch_def ACCEPT_def)
  ultimately show ?thesis using none by simp
qed

section \<open>Settlement of the form route\<close>

lemma step_pending:
  "e \<noteq> FinishEv \<Longrightarrow> timers s = 0 \<Longrightarrow>
   settled (step env opts e s) = settled s \<and> timers (step env opts e s) = 0"
  by (cases e) (auto simp: handler_defs Let_def split: option.splits prod.splits)

lemma run_pending:
  "FinishEv \<notin> set evs \<Longrightarrow> timers s = 0 \<Longrightarrow>
   settled (run env opts evs s) = settled s \<and> timers (run env opts evs s) = 0"
proof (induction evs arbitrary: s)
  case Nil
  then show ?case by simp
next
  case (Cons e evs)
  from Cons.prems have "e \<noteq> FinishEv" and rest: "FinishEv \<notin> set evs" by auto
  with Cons.prems(2) have st: "settled (step env opts e s) = settled s"
    and tm: "timers (step env opts e s) = 0"
    using step_pending [of e s env opts] by simp_all
  from Cons.IH [OF rest tm] st show ?case by simp
qed

lemma finish_then_timeout:
  assumes "settled s = None" and "timers s = 0"
  shows "settled (run env opts [FinishEv, TimeoutEv] s) =
           Some (if errors s = [] then Success (data s) else Failure (errors s))"
  using assms by (simp add: on_finish_def on_timeout_def settle_def)

lemma step_errors_append: "\<exists>vs. errors (step env opts e s) = errors s @ vs"
  by (cases e) (auto simp: handler_defs Let_def split: option.splits prod.splits)

lemma step_quiet:
  "e \<noteq> FinishEv \<Longrightarrow> e \<noteq> TimeoutEv \<Longrightarrow>
   settled (step env opts e s) = settled s \<and> timers (step env opts e s) = timers s"
  by (cases e) (auto simp: handler_defs Let_def split: option.splits prod.splits)

lemma run_quiet:
  "FinishEv \<notin> set evs \<Longrightarrow> TimeoutEv \<notin> set evs \<Longrightarrow>
   settled (run env opts evs s) = settled s \<and> timers (run env opts evs s) = timers s"
proof (induction evs arbitrary: s)
  case Nil
  then show ?case by simp
next
  case (Cons e evs)
  then have "e \<noteq> FinishEv" "e \<noteq> TimeoutEv" "FinishEv \<notin> set evs" "TimeoutEv \<notin> set evs"
    by auto
  with Cons.IH [of "step env opts e s"] step_quiet [of e env opts s] show ?case by simp
qed

lemma step_settled_once: "settled s = Some out \<Longrightarrow> settled (step env opts e s) = Some out"
  by (cases e) (auto simp: handler_defs Let_def split: option.splits prod.splits)

lemma step_ignores_errors:
  "data (step env opts e (s\<lparr>errors := es\<rparr>)) = data (step env opts e s)
   \<and> listening (step env opts e (s\<lparr>errors := es\<rparr>)) = listening (step env opts e s)
   \<and> awaiting (step env opts e (s\<lparr>errors := es\<rparr>)) = awaiting (step env opts e s)
   \<and> effects (step env opts e (s\<lparr>errors := es\<rparr>)) = effects (step env opts e s)"
  by (cases e) (auto simp: handler_defs Let_def split: option.splits prod.splits)

text \<open>
  Claim C1. On the JSON route the outcome is \<open>Failure\<close> with the accumulated violations
  when there is one and \<open>Success\<close> with \<open>req.body\<close> otherwise. On the form route, after
  any events up to \<open>'finish'\<close> and the timer, the outcome is \<open>Failure\<close> with exactly the
  violations recorded by those events when there is one, and \<open>Success\<close> with the result
  tree otherwise. A \<open>Failure\<close> carries the violations only: no field or file with it.
\<close>

theorem failure_iff_violation_recorded:
  "json_route env opts dec =
     (if json_errors env opts dec = [] then Success (json_req_body dec)
      else Failure (json_errors env opts dec))
   \<and> (FinishEv \<notin> set evs \<longrightarrow>
        form_route env opts (evs @ [FinishEv, TimeoutEv]) =
          Some (if errors (run env opts evs (init env)) = []
                then Success (data (run env opts evs (init env)))
                else Failure (errors (run env opts evs (init env)))))"
proof (intro conjI impI)
  show "json_route env opts dec =
     (if json_errors env opts dec = [] then Success (json_req_body dec)
      else Failure (json_errors env opts dec))"
    by (simp add: json_route_def Let_def)
next
  assume nf: "FinishEv \<notin> set evs"
  let ?s = "run env opts evs (init env)"
  have "timers (init env) = 0" and "settled (init env) = None"
    by (simp_all add: init_def)
  with run_pending [OF nf, of "init env" env opts]
  have "settled ?s = None" and "timers ?s = 0" by simp_all
  then show "form_route env opts (evs @ [FinishEv, TimeoutEv]) =
          Some (if errors ?s = [] then Success (data ?s) else Failure (errors ?s))"
    unfolding form_route_def run_append by (rule finish_then_timeout)
qed

text \<open>
  A JSON body with one string over the limit fails; a form with one field succeeds with
  that field; a form with a good field and a truncated one fails with the one violation.
\<close>

theorem failure_iff_violation_recorded_witness:
  "json_route demo_env (no_options\<lparr>limits := no_limits\<lparr>fieldSize := Some (SizeNum 3)\<rparr>\<rparr>)
     \<lparr>parsed = Some (JObject [(''k'', JString ''toolong'')]), error_type = None\<rparr>
     = Failure [field_size_exceeded demo_env ''k'' 3]
   \<and> form_route demo_env no_options ([FieldEv ''a'' ''v'' False False] @ [FinishEv, TimeoutEv])
     = Some (Success [(''a'', TextValue ''v'')])
   \<and> form_route demo_env no_options
        ([FieldEv ''a'' ''v'' False False, FieldEv ''b'' ''w'' False True] @ [FinishEv, TimeoutEv])
     = Some (Failure [form_field_size_exceeded demo_env no_options ''b''])"
  using failure_iff_violation_recorded
          [of demo_env "no_options\<lparr>limits := no_limits\<lparr>fieldSize := Some (SizeNum 3)\<rparr>\<rparr>"
              "\<lparr>parsed = Some (JObject [(''k'', JString ''toolong'')]), error_type = None\<rparr>"
              "[FieldEv ''a'' ''v'' False False]"]
        failure_iff_violation_recorded
          [of demo_env no_options "\<lparr>parsed = None, error_type = None\<rparr>"
              "[FieldEv ''a'' ''v'' False False, FieldEv ''b'' ''w'' False True]"]
  by (simp add: eval_defs)

text \<open>
  Claim C8. Every event only appends to \<open>errors\<close>, and \<open>'filesLimit'\<close> appends one
  \<open>FILE_COUNT_EXCEEDED\<close>; no event other than \<open>'finish'\<close> and the timer it starts changes
  the promise, so before \<open>'finish'\<close> the promise is pending whatever was recorded; what an
  event does to the result tree, the listeners and the outside world does not depend on
  the violations recorded so far; and a settled promise keeps its outcome.
\<close>

theorem violations_accumulate_without_settling:
  "(\<exists>vs. errors (step env opts e s) = errors s @ vs)
   \<and> step env opts FilesLimitEv s = s\<lparr>errors := errors s @ [file_count_exceeded opts]\<rparr>
   \<and> err_name (file_count_exceeded opts) = ''FILE_COUNT_EXCEEDED''
   \<and> (e \<noteq> FinishEv \<and> e \<noteq> TimeoutEv \<longrightarrow> settled (step env opts e s) = settled s)
   \<and> (FinishEv \<notin> set evs \<longrightarrow> form_route env opts evs = None)
   \<and> data (step env opts e (s\<lparr>errors := es\<rparr>)) = data (step env opts e s)
   \<and> listening (step env opts e (s\<lparr>errors := es\<rparr>)) = listening (step env opts e s)
   \<and> effects (step env opts e (s\<lparr>errors := es\<rparr>)) = effects (step env opts e s)
   \<and> (settled s = Some out \<longrightarrow> settled (step env opts e s) = Some out)"
proof -
  have "FinishEv \<notin> set evs \<longrightarrow> form_route env opts evs = None"
    using run_pending [of evs "init env" env opts]
    by (simp add: form_route_def init_def)
  then show ?thesis
    using step_errors_append [where env = env and opts = opts and e = e and s = s]
      step_quiet [where env = env and opts = opts and e = e and s = s]
      step_ignores_errors [where env = env and opts = opts and e = e and s = s and es = es]
      step_settled_once [where env = env and opts = opts and e = e and s = s and out = out]
    by (simp add: on_filesLimit_def file_count_exceeded_def)
qed

text \<open>
  After a truncated field and the file count ceiling the promise is still pending and a
  later field is assigned as if nothing had been recorded; once \<open>'finish'\<close> has rejected,
  a later event leaves the rejection as it is.
\<close>

theorem violations_accumulate_without_settling_witness:
  "FieldEv ''b'' ''w'' False False \<noteq> FinishEv \<and> FieldEv ''b'' ''w'' False False \<noteq> TimeoutEv
   \<and> FinishEv \<notin> set [FieldEv ''a'' ''v'' True False, FilesLimitEv, FieldEv ''b'' ''w'' False False]
   \<and> form_route demo_env no_options
        [FieldEv ''a'' ''v'' True False, FilesLimitEv, FieldEv ''b'' ''w'' False False] = None
   \<and> data (step demo_env no_options (FieldEv ''b'' ''w'' False False)
        ((init demo_env)\<lparr>errors := [file_count_exceeded no_options]\<rparr>))
      = data (step demo_env no_options (FieldEv ''b'' ''w'' False False) (init demo_env))
   \<and> settled (run demo_env no_options [FilesLimitEv, FinishEv] (init demo_env))
      = Some (Failure [file_count_exceeded no_options])
   \<and> settled (step demo_env no_options (FieldEv ''b'' ''w'' False False)
        (run demo_env no_options [FilesLimitEv, FinishEv] (init demo_env)))
      = Some (Failure [file_count_exceeded no_options])"
proof -
  let ?e = "FieldEv ''b'' ''w'' False False"
  let ?evs = "[FieldEv ''a'' ''v'' True False, FilesLimitEv, ?e]"
  let ?r = "run demo_env no_options [FilesLimitEv, FinishEv] (init demo_env)"
  have h1: "?e \<noteq> FinishEv \<and> ?e \<noteq> TimeoutEv" and h2: "FinishEv \<notin> set ?evs" by simp_all
  have h3: "settled ?r = Some (Failure [file_count_exceeded no_options])"
    by (simp add: init_def handler_defs)
  note t = violations_accumulate_without_settling
             [where env = demo_env and opts = no_options and e = ?e and evs = ?evs]
  from t [where s = "init demo_env" and es = "[file_count_exceeded no_options]"] h2
  have "form_route demo_env no_options ?evs = None"
    and "data (step demo_env no_options ?e
            ((init demo_env)\<lparr>errors := [file_count_exceeded no_options]\<rparr>))
         = data (step demo_env no_options ?e (init demo_env))"
    by blast+
  moreover from t [where s = ?r and out = "Failure [file_count_exceeded no_options]"] h3
  have "settled (step demo_env no_options ?e ?r) = Some (Failure [file_count_exceeded no_options])"
    by blast
  ultimately show ?thesis using h1 h2 h3 by blast
qed

text \<open>
  Counterexample to claim C9 as stated: with a violation recorded, the promise is
  rejected by the \<open>'finish'\<close> listener itself, and no timer is started.
\<close>

theorem failure_settles_at_finish:
  "form_route demo_env no_options [FieldEv ''a'' ''v'' False True, FinishEv] =
     Some (Failure [form_field_size_exceeded demo_env no_options ''a''])
   \<and> timers (run demo_env no_options [FieldEv ''a'' ''v'' False True, FinishEv] (init demo_env)) = 0"
  by (simp add: form_route_def init_def on_field_def on_finish_def settle_def)

text \<open>
  Claim C9, amended. At \<open>'finish'\<close>, with the promise pending: when a violation has been
  recorded the promise is rejected at once; when none has, it stays pending and one
  zero-delay timer is started, the events that run before the timer are still processed,
  and the timer resolves the promise with the result tree as it then is. Nothing in the
  state of the file handlers is consulted: their completion is not awaited.
\<close>

theorem success_deferred_failure_immediate:
  "settled s = None \<longrightarrow>
     (errors s \<noteq> [] \<longrightarrow> settled (step env opts FinishEv s) = Some (Failure (errors s)))
   \<and> (errors s = [] \<longrightarrow>
        settled (step env opts FinishEv s) = None
      \<and> timers (step env opts FinishEv s) = Suc (timers s))
   \<and> (errors s = [] \<and> timers s = 0 \<and> FinishEv \<notin> set evs \<and> TimeoutEv \<notin> set evs \<longrightarrow>
        settled (run env opts (FinishEv # evs) s) = None
      \<and> settled (run env opts (FinishEv # evs @ [TimeoutEv]) s) =
          Some (Success (data (run env opts (FinishEv # evs) s))))"
proof (intro impI conjI)
  assume p: "settled s = None"
  { assume "errors s \<noteq> []"
    with p show "settled (step env opts FinishEv s) = Some (Failure (errors s))"
      by (simp add: on_finish_def settle_def) }
  { assume "errors s = []"
    with p show "settled (step env opts FinishEv s) = None"
      and "timers (step env opts FinishEv s) = Suc (timers s)"
      by (simp_all add: on_finish_def) }
  assume a: "errors s = [] \<and> timers s = 0 \<and> FinishEv \<notin> set evs \<and> TimeoutEv \<notin> set evs"
  let ?f = "step env opts FinishEv s"
  let ?r = "run env opts evs ?f"
  from a p have f: "settled ?f = None" "timers ?f = Suc 0"
    by (simp_all add: on_finish_def)
  from a run_quiet [of evs env opts ?f] f
  have r: "settled ?r = None" "timers ?r = Suc 0" by simp_all
  from r show "settled (run env opts (FinishEv # evs) s) = None" by simp
  have "run env opts (FinishEv # evs @ [TimeoutEv]) s = step env opts TimeoutEv ?r"
    by (simp add: run_append)
  with r show "settled (run env opts (FinishEv # evs @ [TimeoutEv]) s) =
          Some (Success (data (run env opts (FinishEv # evs) s)))"
    by (simp add: on_timeout_def settle_def)
qed

text \<open>
  With the file \<open>a.txt\<close> open and nothing recorded, \<open>'finish'\<close> leaves the promise pending;
  the end of the file, arriving before the timer, is still assigned, and the timer
  delivers the tree with it.
\<close>

theorem success_deferred_failure_immediate_witness:
  "settled demo_file_open = None \<and> errors demo_file_open = [] \<and> timers demo_file_open = 0
   \<and> FinishEv \<notin> set [EndEv 0 False] \<and> TimeoutEv \<notin> set [EndEv 0 False]
   \<and> settled (step demo_env demo_upload FinishEv demo_file_open) = None
   \<and> settled (run demo_env demo_upload (FinishEv # [EndEv 0 False]) demo_file_open) = None
   \<and> settled (run demo_env demo_upload (FinishEv # [EndEv 0 False] @ [TimeoutEv]) demo_file_open)
      = Some (Success (data (run demo_env demo_upload (FinishEv # [EndEv 0 False]) demo_file_open)))
   \<and> data (run demo_env demo_upload (FinishEv # [EndEv 0 False]) demo_file_open)
      = [(''doc'', FileValue demo_file)]"
proof -
  have h: "settled demo_file_open = None" "errors demo_file_open = []"
    "timers demo_file_open = 0"
    by (simp_all add: demo_file_open_fields)
  have n: "FinishEv \<notin> set [EndEv 0 False]" "TimeoutEv \<notin> set [EndEv 0 False]" by simp_all
  have d: "data (run demo_env demo_upload (FinishEv # [EndEv 0 False]) demo_file_open)
      = [(''doc'', FileValue demo_file)]"
    using demo_file_open_listening h
    by (simp add: on_finish_def file_on_end_def demo_file_open_fields demo_env_def)
  from success_deferred_failure_immediate
         [where s = demo_file_open and env = demo_env and opts = demo_upload
            and evs = "[EndEv 0 False]"] h n
  have "settled (step demo_env demo_upload FinishEv demo_file_open) = None"
    and "settled (run demo_env demo_upload (FinishEv # [EndEv 0 False]) demo_file_open) = None"
    and "settled (run demo_env demo_upload (FinishEv # [EndEv 0 False] @ [TimeoutEv]) demo_file_open)
      = Some (Success (data (run demo_env demo_upload (FinishEv # [EndEv 0 False]) demo_file_open)))"
    by blast+
  with h n d show ?thesis by blast
qed

section \<open>Fields and files of the form route\<close>

text \<open>
  Claim C3. At the \<open>'end'\<close> of a file stream the module listens to: when the stream was
  truncated, one \<open>FILE_SIZE_EXCEEDED\<close> is appended and the result tree is left as it is;
  otherwise the \<open>File\<close> is assigned at its field. At a \<open>'field'\<close> event: when the name or
  the value was truncated, one \<open>FIELD_SIZE_EXCEEDED\<close> is appended and the result tree is
  left as it is; otherwise the value is assigned at the field.
\<close>

theorem truncated_input_recorded_not_assigned:
  "(listening s i = Some (field, v) \<longrightarrow>
      step env opts (EndEv i True) s = s\<lparr>errors := errors s @ [file_size_exceeded env opts v]\<rparr>
    \<and> err_name (file_size_exceeded env opts v) = ''FILE_SIZE_EXCEEDED''
    \<and> data (step env opts (EndEv i True) s) = data s
    \<and> step env opts (EndEv i False) s = s\<lparr>data := setField env (data s) field (FileValue v)\<rparr>)
   \<and> (nt \<or> vt \<longrightarrow>
      step env opts (FieldEv f val nt vt) s =
        s\<lparr>errors := errors s @ [form_field_size_exceeded env opts f]\<rparr>
    \<and> err_name (form_field_size_exceeded env opts f) = ''FIELD_SIZE_EXCEEDED''
    \<and> data (step env opts (FieldEv f val nt vt) s) = data s)
   \<and> step env opts (FieldEv f val False False) s =
        s\<lparr>data := setField env (data s) f (TextValue val)\<rparr>"
  by (simp add: file_on_end_def on_field_def file_size_exceeded_def
        form_field_size_exceeded_def field_size_exceeded_def)

text \<open>
  With the file \<open>a.txt\<close> open: a truncated end records the violation and assigns nothing,
  a field with a truncated value likewise, and the untruncated end assigns the file.
\<close>

theorem truncated_input_recorded_not_assigned_witness:
  "listening demo_file_open 0 = Some (''doc'', demo_file)
   \<and> errors (step demo_env demo_upload (EndEv 0 True) demo_file_open)
      = [file_size_exceeded demo_env demo_upload demo_file]
   \<and> data (step demo_env demo_upload (EndEv 0 True) demo_file_open) = []
   \<and> data (step demo_env demo_upload (EndEv 0 False) demo_file_open)
      = [(''doc'', FileValue demo_file)]
   \<and> errors (step demo_env demo_upload (FieldEv ''x'' ''y'' False True) demo_file_open)
      = [form_field_size_exceeded demo_env demo_upload ''x'']
   \<and> data (step demo_env demo_upload (FieldEv ''x'' ''y'' False True) demo_file_open) = []"
proof -
  note l = demo_file_open_listening
  note t = truncated_input_recorded_not_assigned
             [where s = demo_file_open and i = 0 and field = "''doc''" and v = demo_file
                and env = demo_env and opts = demo_upload and f = "''x''" and val = "''y''"
                and nt = False and vt = True]
  from t l have e1: "step demo_env demo_upload (EndEv 0 True) demo_file_open =
      demo_file_open\<lparr>errors := errors demo_file_open @
        [file_size_exceeded demo_env demo_upload demo_file]\<rparr>"
    and e2: "step demo_env demo_upload (EndEv 0 False) demo_file_open =
      demo_file_open\<lparr>data := setField demo_env (data demo_file_open) ''doc''
        (FileValue demo_file)\<rparr>"
    and e3: "step demo_env demo_upload (FieldEv ''x'' ''y'' False True) demo_file_open =
      demo_file_open\<lparr>errors := errors demo_file_open @
        [form_field_size_exceeded demo_env demo_upload ''x'']\<rparr>"
    by blast+
  have "setField demo_env [] ''doc'' (FileValue demo_file) = [(''doc'', FileValue demo_file)]"
    by (simp add: demo_env_def)
  with l show ?thesis
    unfolding e1 e2 e3 by (simp add: demo_file_open_fields)
qed

lemma file_on_data_other:
  "data (file_on_data i c s) = data s"
  "errors (file_on_data i c s) = errors s"
  by (simp_all add: file_on_data_def split: option.splits)

lemma file_on_data_listening:
  "listening s i = Some (field, v) \<Longrightarrow>
   listening (file_on_data i c s) i = Some (field, v\<lparr>size_f := length c\<rparr>)"
  by (simp add: file_on_data_def)

lemma data_chunks:
  "listening s i = Some (field, v) \<Longrightarrow> cs \<noteq> [] \<Longrightarrow>
   listening (run env opts (map (DataEv i) cs) s) i = Some (field, v\<lparr>size_f := length (last cs)\<rparr>)
   \<and> data (run env opts (map (DataEv i) cs) s) = data s"
proof (induction cs arbitrary: s v)
  case Nil
  then show ?case by simp
next
  case (Cons c cs)
  let ?s' = "file_on_data i c s"
  have l: "listening ?s' i = Some (field, v\<lparr>size_f := length c\<rparr>)"
    using Cons.prems(1) by (rule file_on_data_listening)
  show ?case
  proof (cases "cs = []")
    case True
    with l show ?thesis by (simp add: file_on_data_other)
  next
    case False
    from Cons.IH [OF l False] False show ?thesis
      by (simp add: file_on_data_other)
  qed
qed

lemma last_chunk_le_total: "cs \<noteq> [] \<Longrightarrow> length (last cs) \<le> length (concat cs)"
  by (induction cs) (auto simp: le_SucI trans_le_add2)

lemma last_chunk_less_total:
  "cs \<noteq> [] \<Longrightarrow> \<exists>c \<in> set (butlast cs). c \<noteq> [] \<Longrightarrow> length (last cs) < length (concat cs)"
proof (induction cs)
  case Nil
  then show ?case by simp
next
  case (Cons c cs)
  show ?case
  proof (cases "cs = []")
    case True
    with Cons.prems show ?thesis by simp
  next
    case ne: False
    then have eq: "last (c # cs) = last cs"
      "length (concat (c # cs)) = length c + length (concat cs)"
      by simp_all
    show ?thesis
    proof (cases "c = []")
      case True
      with Cons ne show ?thesis by auto
    next
      case False
      then have "0 < length c" by simp
      moreover from ne have "length (last cs) \<le> length (concat cs)"
        by (rule last_chunk_le_total)
      ultimately show ?thesis unfolding eq by linarith
    qed
  qed
qed

text \<open>
  Claim C6. On a stream the module listens to, after a \<open>'data'\<close> event the \<open>size\<close> of the
  \<open>File\<close> is the length of that chunk. So after the chunks \<open>cs\<close> and an untruncated
  \<open>'end'\<close> the \<open>File\<close> assigned has the length of the last chunk as its size, which is less
  than the number of bytes of the file as soon as an earlier chunk is not empty.
\<close>

theorem file_size_is_last_chunk_length:
  "(listening s i = Some (field, v) \<longrightarrow>
      listening (step env opts (DataEv i c) s) i = Some (field, v\<lparr>size_f := length c\<rparr>))
   \<and> (listening s i = Some (field, v) \<and> cs \<noteq> [] \<longrightarrow>
      data (run env opts (map (DataEv i) cs @ [EndEv i False]) s) =
        setField env (data s) field (FileValue (v\<lparr>size_f := length (last cs)\<rparr>))
      \<and> ((\<exists>c \<in> set (butlast cs). c \<noteq> []) \<longrightarrow> length (last cs) < length (concat cs)))"
proof (intro conjI impI)
  assume "listening s i = Some (field, v)"
  then show "listening (step env opts (DataEv i c) s) i = Some (field, v\<lparr>size_f := length c\<rparr>)"
    by (simp add: file_on_data_def)
next
  assume a: "listening s i = Some (field, v) \<and> cs \<noteq> []"
  then show "data (run env opts (map (DataEv i) cs @ [EndEv i False]) s) =
        setField env (data s) field (FileValue (v\<lparr>size_f := length (last cs)\<rparr>))"
    using data_chunks [of s i field v cs env opts]
    by (simp add: run_append file_on_end_def)
  assume "\<exists>c \<in> set (butlast cs). c \<noteq> []"
  with a show "length (last cs) < length (concat cs)"
    by (simp add: last_chunk_less_total)
qed

text \<open>
  The file \<open>a.txt\<close> delivered as the chunks \<open>hello\<close> and \<open>hi\<close> is assigned with size 2,
  not 7.
\<close>

theorem file_size_is_last_chunk_length_witness:
  "listening demo_file_open 0 = Some (''doc'', demo_file) \<and> [''hello'', ''hi''] \<noteq> []
   \<and> listening (step demo_env demo_upload (DataEv 0 ''hello'') demo_file_open) 0
      = Some (''doc'', demo_file\<lparr>size_f := 5\<rparr>)
   \<and> data (run demo_env demo_upload (map (DataEv 0) [''hello'', ''hi''] @ [EndEv 0 False])
        demo_file_open)
      = [(''doc'', FileValue (demo_file\<lparr>size_f := 2\<rparr>))]
   \<and> length (last [''hello'', ''hi'']) < length (concat [''hello'', ''hi''])"
proof -
  note l = demo_file_open_listening
  have ne: "[''hello'', ''hi''] \<noteq> []"
    and ex: "\<exists>c \<in> set (butlast [''hello'', ''hi'']). c \<noteq> []" by simp_all
  note t = file_size_is_last_chunk_length
             [where s = demo_file_open and i = 0 and field = "''doc''" and v = demo_file
                and env = demo_env and opts = demo_upload and cs = "[''hello'', ''hi'']"
                and c = "''hello''"]
  from t l ne ex
  have a: "listening (step demo_env demo_upload (DataEv 0 ''hello'') demo_file_open) 0
      = Some (''doc'', demo_file\<lparr>size_f := length ''hello''\<rparr>)"
    and b: "data (run demo_env demo_upload (map (DataEv 0) [''hello'', ''hi''] @ [EndEv 0 False])
        demo_file_open)
      = setField demo_env (data demo_file_open) ''doc''
          (FileValue (demo_file\<lparr>size_f := length (last [''hello'', ''hi''])\<rparr>))"
    and c: "length (last [''hello'', ''hi'']) < length (concat [''hello'', ''hi''])"
    by blast+
  from l ne c show ?thesis
    unfolding a b by (simp add: demo_file_open_fields demo_env_def)
qed

text \<open>
  Counterexample to claim C7 as stated: with an accepted pattern configured but none of
  \<open>fileCount\<close>, \<open>uploadDir\<close> and \<open>onFile\<close>, the \<open>'file'\<close> listener is not registered (line
  154); a file whose mime type does not match produces no violation and the operation
  succeeds.
\<close>

theorem mime_unchecked_without_file_listener:
  "\<not> accepts demo_env \<lparr>name = ''a.txt'', size_f = 0, type_f = ''text/plain'', path = None\<rparr>
        ''image/png''
   \<and> \<not> file_listener (no_options\<lparr>limits := no_limits\<lparr>mimeType := Some ''image/png''\<rparr>\<rparr>)
   \<and> form_route demo_env (no_options\<lparr>limits := no_limits\<lparr>mimeType := Some ''image/png''\<rparr>\<rparr>)
        [FileEv 0 ''doc'' ''a.txt'' ''text/plain'', MkdirDone 0, DataEv 0 ''hi'', EndEv 0 False,
         FinishEv, TimeoutEv] = Some (Success [])"
  by (simp add: eval_defs)

text \<open>
  Claim C7, amended. When the \<open>'file'\<close> listener is registered (a non-zero \<open>fileCount\<close>, a
  non-empty \<open>uploadDir\<close> or an \<open>onFile\<close> handler is supplied), a file part with a non-empty
  file name whose mime type the configured, non-empty pattern does not accept appends
  exactly one \<open>FILE_TYPE_REJECTED\<close>, and its stream is resumed and nothing else: no call
  of \<open>onFile\<close>, no write, no listener on the stream and no assignment, so that the later
  events of a fresh stream change nothing.
\<close>

theorem mime_mismatch_rejected_and_drained:
  "file_listener opts \<and> filename \<noteq> [] \<and> truthy_str (mimeType (limits opts)) \<and>
   \<not> accepts env \<lparr>name = filename, size_f = 0, type_f = mime, path = None\<rparr>
        (the (mimeType (limits opts))) \<longrightarrow>
     step env opts (FileEv i field filename mime) s =
       s\<lparr>errors := errors s @
            [file_type_rejected opts \<lparr>name = filename, size_f = 0, type_f = mime, path = None\<rparr>],
         effects := effects s @ [Resume i]\<rparr>
   \<and> err_name (file_type_rejected opts \<lparr>name = filename, size_f = 0, type_f = mime, path = None\<rparr>)
        = ''FILE_TYPE_REJECTED''
   \<and> (listening s i = None \<and> awaiting s i = None \<longrightarrow>
        step env opts (MkdirDone i) (step env opts (FileEv i field filename mime) s)
          = step env opts (FileEv i field filename mime) s
      \<and> step env opts (DataEv i c) (step env opts (FileEv i field filename mime) s)
          = step env opts (FileEv i field filename mime) s
      \<and> step env opts (EndEv i t) (step env opts (FileEv i field filename mime) s)
          = step env opts (FileEv i field filename mime) s)"
  by (simp add: on_file_def file_type_rejected_def after_mkdir_def file_on_data_def
        file_on_end_def)

text \<open>
  With \<open>uploadDir\<close> set and the pattern \<open>text/plain\<close>, the upload \<open>b.png\<close> of type
  \<open>image/png\<close> is rejected and drained, and the operation fails with that one violation.
\<close>

theorem mime_mismatch_rejected_and_drained_witness:
  "file_listener demo_upload \<and> ''b.png'' \<noteq> [] \<and> truthy_str (mimeType (limits demo_upload))
   \<and> \<not> accepts demo_env \<lparr>name = ''b.png'', size_f = 0, type_f = ''image/png'', path = None\<rparr>
          (the (mimeType (limits demo_upload)))
   \<and> step demo_env demo_upload (FileEv 1 ''pic'' ''b.png'' ''image/png'') (init demo_env) =
       (init demo_env)\<lparr>errors := errors (init demo_env) @
            [file_type_rejected demo_upload
               \<lparr>name = ''b.png'', size_f = 0, type_f = ''image/png'', path = None\<rparr>],
         effects := effects (init demo_env) @ [Resume 1]\<rparr>
   \<and> form_route demo_env demo_upload
        [FileEv 1 ''pic'' ''b.png'' ''image/png'', MkdirDone 1, DataEv 1 ''hi'', EndEv 1 False,
         FinishEv, TimeoutEv]
      = Some (Failure [file_type_rejected demo_upload
               \<lparr>name = ''b.png'', size_f = 0, type_f = ''image/png'', path = None\<rparr>])"
proof -
  have h: "file_listener demo_upload \<and> ''b.png'' \<noteq> [] \<and>
      truthy_str (mimeType (limits demo_upload)) \<and>
      \<not> accepts demo_env \<lparr>name = ''b.png'', size_f = 0, type_f = ''image/png'', path = None\<rparr>
          (the (mimeType (limits demo_upload)))"
    by (simp add: demo_upload_def eval_defs)
  from mime_mismatch_rejected_and_drained
         [where opts = demo_upload and env = demo_env and filename = "''b.png''"
            and mime = "''image/png''" and i = 1 and field = "''pic''" and s = "init demo_env"] h
  have e: "step demo_env demo_upload (FileEv 1 ''pic'' ''b.png'' ''image/png'') (init demo_env) =
       (init demo_env)\<lparr>errors := errors (init demo_env) @
            [file_type_rejected demo_upload
               \<lparr>name = ''b.png'', size_f = 0, type_f = ''image/png'', path = None\<rparr>],
         effects := effects (init demo_env) @ [Resume 1]\<rparr>"
    by blast
  have "form_route demo_env demo_upload
        [FileEv 1 ''pic'' ''b.png'' ''image/png'', MkdirDone 1, DataEv 1 ''hi'', EndEv 1 False,
         FinishEv, TimeoutEv]
      = Some (Failure [file_type_rejected demo_upload
               \<lparr>name = ''b.png'', size_f = 0, type_f = ''image/png'', path = None\<rparr>])"
    unfolding form_route_def run_Cons run_Nil e
    by (simp add: init_def handler_defs)
  with h e show ?thesis by blast
qed

text \<open>
  Counterexample to claim C5 as stated: the form decoder counts a file part with an empty
  file name (lines 28-29). With \<open>fileCount = 1\<close>, an empty file field followed by one
  real file hits the ceiling, and the operation fails with \<open>FILE_COUNT_EXCEEDED\<close>.
\<close>

theorem empty_filename_counts_toward_file_limit:
  "files (snd (busboy_part (Some 1) True
      (FilePart ''avatar'' [] ''application/octet-stream'' [] False) busboy_init)) = 1
   \<and> upload demo_env (no_options\<lparr>limits := no_limits\<lparr>fileCount := Some 1\<rparr>\<rparr>)
       [FilePart ''avatar'' [] ''application/octet-stream'' [] False,
        FilePart ''doc'' ''a.txt'' ''text/plain'' [''hi''] False]
     = Some (Failure [file_count_exceeded (no_options\<lparr>limits := no_limits\<lparr>fileCount := Some 1\<rparr>\<rparr>)])"
  by (simp add: upload_def busboy_part_def busboy_init_def eval_defs)

text \<open>
  Claim C5, amended. A \<open>'file'\<close> event with an empty file name only resumes the stream:
  no mime check, no violation, no call of \<open>onFile\<close>, no write, no listener on the stream
  and no assignment, so that the later events of a fresh stream change nothing. The form
  decoder still counts the part against the file count limit.
\<close>

theorem empty_filename_drained_but_counted:
  "step env opts (FileEv i field [] mime) s =
     (if file_listener opts then s\<lparr>effects := effects s @ [Resume i]\<rparr> else s)
   \<and> (listening s i = None \<and> awaiting s i = None \<longrightarrow>
        step env opts (MkdirDone i) (step env opts (FileEv i field [] mime) s)
          = step env opts (FileEv i field [] mime) s
      \<and> step env opts (DataEv i c) (step env opts (FileEv i field [] mime) s)
          = step env opts (FileEv i field [] mime) s
      \<and> step env opts (EndEv i t) (step env opts (FileEv i field [] mime) s)
          = step env opts (FileEv i field [] mime) s)
   \<and> (filesLimit \<noteq> Some (files b) \<longrightarrow>
        files (snd (busboy_part filesLimit listener (FilePart field [] mime cs t) b))
          = Suc (files b))"
  by (simp add: on_file_def after_mkdir_def file_on_data_def file_on_end_def busboy_part_def)

text \<open>
  An empty file field in the upload configuration: the stream is resumed, its end is
  ignored, the result tree stays empty, and the decoder's count goes from 0 to 1.
\<close>

theorem empty_filename_drained_but_counted_witness:
  "listening (init demo_env) 0 = None \<and> awaiting (init demo_env) 0 = None
   \<and> Some 2 \<noteq> Some (files busboy_init)
   \<and> step demo_env demo_upload (FileEv 0 ''avatar'' [] ''image/png'') (init demo_env)
      = (init demo_env)\<lparr>effects := [Resume 0]\<rparr>
   \<and> step demo_env demo_upload (EndEv 0 False)
        (step demo_env demo_upload (FileEv 0 ''avatar'' [] ''image/png'') (init demo_env))
      = step demo_env demo_upload (FileEv 0 ''avatar'' [] ''image/png'') (init demo_env)
   \<and> files (snd (busboy_part (Some 2) True (FilePart ''avatar'' [] ''image/png'' [] False)
        busboy_init)) = Suc (files busboy_init)"
proof -
  have h: "listening (init demo_env) 0 = None \<and> awaiting (init demo_env) 0 = None"
    and k: "Some 2 \<noteq> Some (files busboy_init)"
    and g: "file_listener demo_upload"
    by (simp_all add: busboy_init_def demo_upload_def eval_defs)
  note t = empty_filename_drained_but_counted
             [where env = demo_env and opts = demo_upload and i = 0 and field = "''avatar''"
                and mime = "''image/png''" and s = "init demo_env" and t = False
                and filesLimit = "Some 2" and b = busboy_init and listener = True and cs = "[]"]
  from t h k
  have a: "step demo_env demo_upload (FileEv 0 ''avatar'' [] ''image/png'') (init demo_env) =
      (if file_listener demo_upload
       then (init demo_env)\<lparr>effects := effects (init demo_env) @ [Resume 0]\<rparr>
       else init demo_env)"
    and b: "step demo_env demo_upload (EndEv 0 False)
        (step demo_env demo_upload (FileEv 0 ''avatar'' [] ''image/png'') (init demo_env))
      = step demo_env demo_upload (FileEv 0 ''avatar'' [] ''image/png'') (init demo_env)"
    and c: "files (snd (busboy_part (Some 2) True (FilePart ''avatar'' [] ''image/png'' [] False)
        busboy_init)) = Suc (files busboy_init)"
    by blast+
  from a g
  have "step demo_env demo_upload (FileEv 0 ''avatar'' [] ''image/png'') (init demo_env)
      = (init demo_env)\<lparr>effects := [Resume 0]\<rparr>"
    by (simp add: init_def)
  with h k b c show ?thesis by blast
qed

lemma closed_gate_step:
  assumes "\<not> file_listener opts" and "listening s = Map.empty" and "awaiting s = Map.empty"
  shows "(is_file_event e \<longrightarrow> step env opts e s = s)
         \<and> listening (step env opts e s) = Map.empty
         \<and> awaiting (step env opts e s) = Map.empty
         \<and> effects (step env opts e s) = effects s"
  using assms
  by (cases e) (auto simp: handler_defs Let_def split: option.splits prod.splits)

lemma closed_gate_run:
  assumes g: "\<not> file_listener opts"
  shows "listening s = Map.empty \<Longrightarrow> awaiting s = Map.empty \<Longrightarrow>
         run env opts evs s = run env opts (filter (\<lambda>e. \<not> is_file_event e) evs) s"
proof (induction evs arbitrary: s)
  case Nil
  then show ?case by simp
next
  case (Cons e evs)
  note st = closed_gate_step [OF g Cons.prems, of e env]
  from st have inv: "listening (step env opts e s) = Map.empty"
    "awaiting (step env opts e s) = Map.empty" by simp_all
  from Cons.IH [OF inv] st show ?case by (cases "is_file_event e") simp_all
qed

lemma closed_gate_effects:
  assumes g: "\<not> file_listener opts"
  shows "listening s = Map.empty \<Longrightarrow> awaiting s = Map.empty \<Longrightarrow>
         effects (run env opts evs s) = effects s"
proof (induction evs arbitrary: s)
  case Nil
  then show ?case by simp
next
  case (Cons e evs)
  note st = closed_gate_step [OF g Cons.prems, of e env]
  from st have inv: "listening (step env opts e s) = Map.empty"
    "awaiting (step env opts e s) = Map.empty" by simp_all
  from Cons.IH [OF inv] st show ?case by simp
qed

lemma plain_fields_no_errors:
  "\<forall>e \<in> set evs. is_plain_field e \<Longrightarrow> errors (run env opts evs s) = errors s"
proof (induction evs arbitrary: s)
  case Nil
  then show ?case by simp
next
  case (Cons e evs)
  then have "is_plain_field e" by simp
  then have "errors (step env opts e s) = errors s"
    by (cases e) (simp_all add: on_field_def)
  with Cons show ?case by simp
qed

lemma plain_fields_no_finish: "\<forall>e \<in> set evs. is_plain_field e \<Longrightarrow> FinishEv \<notin> set evs"
  by (induction evs) auto

text \<open>
  Claim C10. When none of \<open>fileCount\<close>, \<open>uploadDir\<close> and \<open>onFile\<close> is supplied, the
  \<open>'file'\<close> listener is not registered: the events of file parts change nothing (the
  state is the one the other events alone produce) and nothing is done outside the
  module, while an untruncated text field is assigned as always; a body of file parts and
  untruncated text fields settles as \<open>Success\<close> with the tree of its text fields.
\<close>

theorem no_file_listener_without_file_options:
  "fileCount (limits opts) = None \<and> uploadDir opts = None \<and> \<not> onFile opts \<longrightarrow>
     \<not> file_listener opts
   \<and> run env opts evs (init env) = run env opts (filter (\<lambda>e. \<not> is_file_event e) evs) (init env)
   \<and> effects (run env opts evs (init env)) = []
   \<and> step env opts (FieldEv f v False False) s = s\<lparr>data := setField env (data s) f (TextValue v)\<rparr>
   \<and> ((\<forall>e \<in> set evs. is_file_event e \<or> is_plain_field e) \<longrightarrow>
        form_route env opts (evs @ [FinishEv, TimeoutEv]) =
          Some (Success (data (run env opts (filter (\<lambda>e. \<not> is_file_event e) evs) (init env)))))"
proof (intro impI)
  assume a: "fileCount (limits opts) = None \<and> uploadDir opts = None \<and> \<not> onFile opts"
  then have g: "\<not> file_listener opts"
    by (simp add: file_listener_def maxFileCount_def or_undefined_def truthy_nat_def truthy_str_def)
  let ?keep = "filter (\<lambda>e. \<not> is_file_event e) evs"
  have i: "listening (init env) = Map.empty" "awaiting (init env) = Map.empty"
    "effects (init env) = []" "errors (init env) = []" "settled (init env) = None"
    "timers (init env) = 0"
    by (simp_all add: init_def)
  have r: "run env opts evs (init env) = run env opts ?keep (init env)"
    using i(1) i(2) by (rule closed_gate_run [OF g])
  have e: "effects (run env opts evs (init env)) = []"
    using closed_gate_effects [OF g i(1) i(2), of env evs] i(3) by simp
  have s: "(\<forall>e \<in> set evs. is_file_event e \<or> is_plain_field e) \<longrightarrow>
        form_route env opts (evs @ [FinishEv, TimeoutEv]) =
          Some (Success (data (run env opts ?keep (init env))))"
  proof
    assume all: "\<forall>e \<in> set evs. is_file_event e \<or> is_plain_field e"
    then have pl: "\<forall>e \<in> set ?keep. is_plain_field e" by auto
    from plain_fields_no_errors [OF pl, of env opts "init env"] i(4)
    have ne: "errors (run env opts ?keep (init env)) = []" by simp
    from run_pending [OF plain_fields_no_finish [OF pl], of "init env" env opts] i
    have "settled (run env opts ?keep (init env)) = None"
      and "timers (run env opts ?keep (init env)) = 0" by simp_all
    from finish_then_timeout [OF this, of env opts] ne
    show "form_route env opts (evs @ [FinishEv, TimeoutEv]) =
          Some (Success (data (run env opts ?keep (init env))))"
      by (simp add: form_route_def run_append r)
  qed
  from g r e s show "\<not> file_listener opts
   \<and> run env opts evs (init env) = run env opts ?keep (init env)
   \<and> effects (run env opts evs (init env)) = []
   \<and> step env opts (FieldEv f v False False) s = s\<lparr>data := setField env (data s) f (TextValue v)\<rparr>
   \<and> ((\<forall>e \<in> set evs. is_file_event e \<or> is_plain_field e) \<longrightarrow>
        form_route env opts (evs @ [FinishEv, TimeoutEv]) =
          Some (Success (data (run env opts ?keep (init env)))))"
    by (simp add: on_field_def)
qed

text \<open>
  Without options, a body with a text field, a truncated file and another text field
  succeeds with the two text fields.
\<close>

theorem no_file_listener_without_file_options_witness:
  "fileCount (limits no_options) = None \<and> uploadDir no_options = None \<and> \<not> onFile no_options
   \<and> \<not> file_listener no_options
   \<and> effects (run demo_env no_options
        [FieldEv ''a'' ''1'' False False, FileEv 0 ''doc'' ''a.txt'' ''text/plain'',
         DataEv 0 ''hi'', EndEv 0 True, FieldEv ''b'' ''2'' False False] (init demo_env)) = []
   \<and> form_route demo_env no_options
        ([FieldEv ''a'' ''1'' False False, FileEv 0 ''doc'' ''a.txt'' ''text/plain'',
          DataEv 0 ''hi'', EndEv 0 True, FieldEv ''b'' ''2'' False False] @ [FinishEv, TimeoutEv])
      = Some (Success [(''a'', TextValue ''1''), (''b'', TextValue ''2'')])"
proof -
  let ?evs = "[FieldEv ''a'' ''1'' False False, FileEv 0 ''doc'' ''a.txt'' ''text/plain'',
         DataEv 0 ''hi'', EndEv 0 True, FieldEv ''b'' ''2'' False False]"
  have h: "fileCount (limits no_options) = None \<and> uploadDir no_options = None \<and>
      \<not> onFile no_options"
    by (simp add: no_options_def no_limits_def)
  have k: "\<forall>e \<in> set ?evs. is_file_event e \<or> is_plain_field e" by simp
  have d: "data (run demo_env no_options (filter (\<lambda>e. \<not> is_file_event e) ?evs) (init demo_env))
      = [(''a'', TextValue ''1''), (''b'', TextValue ''2'')]"
    by (simp add: on_field_def init_def demo_env_def)
  from no_file_listener_without_file_options
         [where opts = no_options and env = demo_env and evs = ?evs] h k
  have "\<not> file_listener no_options"
    and "effects (run demo_env no_options ?evs (init demo_env)) = []"
    and "form_route demo_env no_options (?evs @ [FinishEv, TimeoutEv]) =
          Some (Success (data (run demo_env no_options
            (filter (\<lambda>e. \<not> is_file_event e) ?evs) (init demo_env))))"
    by blast+
  with h d show ?thesis by simp
qed

section \<open>The JSON route\<close>

lemma reviver_count:
  "length (fst (reviver env lim key val st)) =
     length (fst st) + (case val of JString v \<Rightarrow> if length v > lim then 1 else 0 | _ \<Rightarrow> 0)"
  by (cases st; cases val) (simp_all add: reviver_def Let_def)

text \<open>Every string longer than the limit is recorded exactly once, wherever it stands.\<close>

lemma internalize_count:
  "length (fst (internalize (reviver env lim) key j st)) = length (fst st) + long_strings lim j"
  "length (fst (internalize_elems (reviver env lim) i xs st))
     = length (fst st) + long_strings_list lim xs"
  "length (fst (internalize_members (reviver env lim) ms st))
     = length (fst st) + long_strings_members lim ms"
proof (induction "reviver env lim" key j st and "reviver env lim" i xs st
         and "reviver env lim" ms st
       rule: internalize_internalize_elems_internalize_members.induct)
qed (simp_all add: reviver_count)

lemma json_reviver_errors_count:
  "maxFieldSize env opts = Some lim \<Longrightarrow> parsed dec = Some j \<Longrightarrow>
   length (json_reviver_errors env opts dec) = long_strings lim j"
  by (simp add: json_reviver_errors_def internalize_count)

text \<open>
  Claim C4, on the code: with the field size limit 3, the too long element of the array
  \<open>tags\<close> in \<open>{"a": "x", "tags": ["toolong"]}\<close> is reported as \<open>a.0\<close>, the key visited
  before it, since the reviver sees the elements of an array before the key that holds
  the array; with no earlier key it is reported as \<open>undefined.0\<close>. The too long string
  under the plain object key \<open>address1\<close>, which contains a digit, is reported as
  \<open>name.address1\<close>.
\<close>

theorem array_element_named_after_previous_key:
  "json_route demo_env (no_options\<lparr>limits := no_limits\<lparr>fieldSize := Some (SizeNum 3)\<rparr>\<rparr>)
     \<lparr>parsed = Some (JObject [(''a'', JString ''x''), (''tags'', JArray [JString ''toolong''])]),
      error_type = None\<rparr>
     = Failure [field_size_exceeded demo_env ''a.0'' 3]
   \<and> json_route demo_env (no_options\<lparr>limits := no_limits\<lparr>fieldSize := Some (SizeNum 3)\<rparr>\<rparr>)
     \<lparr>parsed = Some (JObject [(''tags'', JArray [JString ''toolong''])]), error_type = None\<rparr>
     = Failure [field_size_exceeded demo_env ''undefined.0'' 3]
   \<and> json_route demo_env (no_options\<lparr>limits := no_limits\<lparr>fieldSize := Some (SizeNum 3)\<rparr>\<rparr>)
     \<lparr>parsed = Some (JObject [(''name'', JString ''x''), (''address1'', JString ''toolong'')]),
      error_type = None\<rparr>
     = Failure [field_size_exceeded demo_env ''name.address1'' 3]"
  by (simp add: eval_defs)


end
